theory Spec2Isabelle
  imports Main
begin

section \<open>Python values\<close>

text \<open>
  A Python \<open>str\<close> is a sequence of Unicode code points, so a string is a list of
  natural numbers. \<open>py\<close> turns an Isabelle literal into such a string, so that the
  constants of \<^verbatim>\<open>backend_app.py\<close> can be written as they are in the source.
\<close>

type_synonym pystr = "nat list"

definition py :: "string \<Rightarrow> pystr" where
  "py s = map of_char s"

text \<open>
  A float is kept as mantissa and binary exponent, or one of the special values that
  \<open>json.loads\<close> and pandas produce. Only the test for zero and the missing marker
  \<open>NaN\<close> are ever looked at.
\<close>

datatype pyfloat = Finite int int | Infinite bool | NaN

datatype pyval =
    PNone
  | PBool bool
  | PInt int
  | PFloat pyfloat
  | PStr pystr
  | PList "pyval list"
  | PDict "(pystr \<times> pyval) list"

type_synonym pydict = "(pystr \<times> pyval) list"

text \<open>Truth value testing, as \<open>not payload\<close> does it.\<close>

fun truthy :: "pyval \<Rightarrow> bool" where
  "truthy PNone = False"
| "truthy (PBool b) = b"
| "truthy (PInt i) = (i \<noteq> 0)"
| "truthy (PFloat f) = (case f of Finite m e \<Rightarrow> m \<noteq> 0 | Infinite s \<Rightarrow> True | NaN \<Rightarrow> True)"
| "truthy (PStr s) = (s \<noteq> [])"
| "truthy (PList xs) = (xs \<noteq> [])"
| "truthy (PDict d) = (d \<noteq> [])"

text \<open>\<open>d.get(k, dflt)\<close> on a dict held as an association list.\<close>

definition dict_get :: "pydict \<Rightarrow> pystr \<Rightarrow> pyval \<Rightarrow> pyval" where
  "dict_get d k dflt = (case map_of d k of Some v \<Rightarrow> v | None \<Rightarrow> dflt)"

text \<open>
  \<open>d[k] = v\<close>: an existing key keeps its place and takes the new value, a new key goes
  to the end. \<open>dict(pairs)\<close> stores the pairs from left to right.
\<close>

fun dict_set :: "('k \<times> 'v) list \<Rightarrow> 'k \<Rightarrow> 'v \<Rightarrow> ('k \<times> 'v) list" where
  "dict_set [] k v = [(k, v)]"
| "dict_set ((k', v') # d) k v = (if k' = k then (k, v) # d else (k', v') # dict_set d k v)"

definition py_dict :: "('k \<times> 'v) list \<Rightarrow> ('k \<times> 'v) list" where
  "py_dict ps = foldl (\<lambda>d (k, v). dict_set d k v) [] ps"

text \<open>An exception: its class name and \<open>str(e)\<close>.\<close>

datatype exn = Exn (exn_class: pystr) (exn_msg: pystr)

definition ValueError :: "pystr \<Rightarrow> exn" where
  "ValueError msg = Exn (py ''ValueError'') msg"

text \<open>\<open>str(KeyError(k))\<close> is the key in single quotes.\<close>

definition KeyError :: "pystr \<Rightarrow> exn" where
  "KeyError k = Exn (py ''KeyError'') ([39] @ k @ [39])"

definition IndexError :: "pystr \<Rightarrow> exn" where
  "IndexError msg = Exn (py ''IndexError'') msg"

section \<open>Data frames\<close>

text \<open>
  A pandas frame: the column labels in order, and the rows, each row holding one cell per
  column under the column's label. The number of rows is the length of \<open>rows\<close>, also
  for a frame with no column.
\<close>

record frame =
  columns :: "pystr list"
  rows :: "pydict list"

text \<open>
  What the program takes from the Python runtime and from pandas, Flask and the standard
  library, none of which is code of the repository:
  \<^item> \<open>str.lower\<close> and \<open>str.upper\<close> on a string with a code point beyond ASCII (Unicode's
    case tables and their context rules);
  \<^item> \<open>str\<close> of a number or a container;
  \<^item> \<open>pandas.DataFrame\<close> on a list with an element that is not a dict;
  \<^item> \<open>traceback.format_exc()\<close> in the handler of an exception.
\<close>

record runtime =
  unicode_lower :: "pystr \<Rightarrow> pystr"
  unicode_upper :: "pystr \<Rightarrow> pystr"
  repr :: "pyval \<Rightarrow> pystr"
  DataFrame_other :: "pyval list \<Rightarrow> exn + frame"
  format_exc :: "exn \<Rightarrow> pystr"

section \<open>Strings\<close>

definition is_ascii :: "pystr \<Rightarrow> bool" where
  "is_ascii s = list_all (\<lambda>c. c < 128) s"

definition ascii_lower :: "nat \<Rightarrow> nat" where
  "ascii_lower c = (if 65 \<le> c \<and> c \<le> 90 then c + 32 else c)"

definition ascii_upper :: "nat \<Rightarrow> nat" where
  "ascii_upper c = (if 97 \<le> c \<and> c \<le> 122 then c - 32 else c)"

text \<open>
  \<open>s.lower()\<close> and \<open>s.upper()\<close>: letter by letter on an ASCII string, the runtime's
  Unicode mapping otherwise.
\<close>

definition str_lower :: "runtime \<Rightarrow> pystr \<Rightarrow> pystr" where
  "str_lower R s = (if is_ascii s then map ascii_lower s else unicode_lower R s)"

definition str_upper :: "runtime \<Rightarrow> pystr \<Rightarrow> pystr" where
  "str_upper R s = (if is_ascii s then map ascii_upper s else unicode_upper R s)"

text \<open>\<open>str(v)\<close>: a string is itself.\<close>

fun py_str :: "runtime \<Rightarrow> pyval \<Rightarrow> pystr" where
  "py_str R (PStr s) = s"
| "py_str R PNone = py ''None''"
| "py_str R (PBool b) = (if b then py ''True'' else py ''False'')"
| "py_str R v = repr R v"

text \<open>\<open>sub in s\<close> on strings: \<open>sub\<close> occurs in \<open>s\<close> as a contiguous block.\<close>

fun starts_with :: "pystr \<Rightarrow> pystr \<Rightarrow> bool" where
  "starts_with [] s = True"
| "starts_with (x # xs) [] = False"
| "starts_with (x # xs) (c # cs) = (x = c \<and> starts_with xs cs)"

fun str_contains :: "pystr \<Rightarrow> pystr \<Rightarrow> bool" where
  "str_contains sub [] = (sub = [])"
| "str_contains sub (c # cs) = (starts_with sub (c # cs) \<or> str_contains sub cs)"

section \<open>Frames from records\<close>

text \<open>
  \<open>pandas.DataFrame(records)\<close> on a list of dicts: the columns are the keys in the order
  in which they first appear, and a record without a key has \<open>NaN\<close> in that column.
\<close>

definition add_key :: "pystr list \<Rightarrow> pystr \<Rightarrow> pystr list" where
  "add_key acc k = (if k \<in> set acc then acc else acc @ [k])"

definition columns_of :: "pydict list \<Rightarrow> pystr list" where
  "columns_of ds = foldl (\<lambda>acc d. foldl add_key acc (map fst d)) [] ds"

definition DataFrame_dicts :: "pydict list \<Rightarrow> frame" where
  "DataFrame_dicts ds =
     \<lparr>columns = columns_of ds,
      rows = map (\<lambda>d. map (\<lambda>c. (c, dict_get d c (PFloat NaN))) (columns_of ds)) ds\<rparr>"

fun the_dict :: "pyval \<Rightarrow> pydict option" where
  "the_dict (PDict d) = Some d"
| "the_dict v = None"

definition DataFrame :: "runtime \<Rightarrow> pyval list \<Rightarrow> exn + frame" where
  "DataFrame R records =
     (case those (map the_dict records) of
        Some ds \<Rightarrow> Inr (DataFrame_dicts ds)
      | None \<Rightarrow> DataFrame_other R records)"

text \<open>\<open>df[col] = v\<close> with a scalar \<open>v\<close>: every row gets \<open>v\<close> in that column.\<close>

definition setitem :: "frame \<Rightarrow> pystr \<Rightarrow> pyval \<Rightarrow> frame" where
  "setitem df col v =
     \<lparr>columns = add_key (columns df) col,
      rows = map (\<lambda>r. dict_set r col v) (rows df)\<rparr>"

text \<open>
  \<open>df[cols]\<close> with a list of labels: the frame of these columns in the order of the list;
  a label that is no column raises \<open>KeyError\<close>.
\<close>

definition getitem_columns :: "frame \<Rightarrow> pystr list \<Rightarrow> exn + frame" where
  "getitem_columns df cols =
     (case filter (\<lambda>c. c \<notin> set (columns df)) cols of
        [] \<Rightarrow> Inr \<lparr>columns = cols,
                   rows = map (\<lambda>r. map (\<lambda>c. (c, dict_get r c (PFloat NaN))) cols) (rows df)\<rparr>
      | c # _ \<Rightarrow> Inl (KeyError c))"

section \<open>The service: \<^verbatim>\<open>backend_app.py\<close>\<close>

text \<open>The built-in table, used when \<^verbatim>\<open>medication_map.csv\<close> is not there.\<close>

definition default_med_map :: frame where
  "default_med_map = DataFrame_dicts
     [[(py ''Complication'', PStr (py ''Infection'')),
       (py ''Recommended_Medication'', PStr (py ''Antibiotics'')),
       (py ''Dosage'', PStr (py ''500 mg/day'')),
       (py ''Duration'', PStr (py ''7 days''))],
      [(py ''Complication'', PStr (py ''Bleeding'')),
       (py ''Recommended_Medication'', PStr (py ''Blood Transfusion + Hemostatic Agent'')),
       (py ''Dosage'', PStr (py ''2 units'')),
       (py ''Duration'', PStr (py ''1 days''))],
      [(py ''Complication'', PStr (py ''Organ Failure'')),
       (py ''Recommended_Medication'', PStr (py ''IV Fluids + Vasopressors'')),
       (py ''Dosage'', PStr (py ''2 L/day'')),
       (py ''Duration'', PStr (py ''5 days''))],
      [(py ''Complication'', PStr (py ''None'')),
       (py ''Recommended_Medication'', PStr (py ''Pain Management'')),
       (py ''Dosage'', PStr (py ''100 mg/day'')),
       (py ''Duration'', PStr (py ''1 days''))]]"

definition EXPECTED_FEATURES :: "pystr list option" where
  "EXPECTED_FEATURES = Some
     [py ''Age'', py ''Gender'', py ''BMI'', py ''ASA_Score'', py ''Diabetes'',
      py ''Hypertension'', py ''Heart_Disease'', py ''Preop_Hb'', py ''Preop_WBC'',
      py ''Surgery_Type'', py ''Duration_Min'', py ''Blood_Loss_ml'',
      py ''Vital_Instability'', py ''Postop_Hb'', py ''Postop_WBC'']"

subsection \<open>\<open>recommend_from_complication\<close>\<close>

text \<open>
  One entry of the mask \<open>med_map_df['Complication'].str.lower() == key\<close>: a cell that
  is a string is compared in lower case, any other cell gives \<open>NaN\<close> under \<open>.str\<close> and
  compares unequal. The column is one of strings, as \<open>read_csv\<close> gives it for a column of
  labels; \<open>.str\<close> on a column that pandas types as numeric is outside this model.
\<close>

definition complication_is :: "runtime \<Rightarrow> pystr \<Rightarrow> pydict \<Rightarrow> bool" where
  "complication_is R key r =
     (case map_of r (py ''Complication'') of
        Some (PStr c) \<Rightarrow> str_lower R c = key
      | _ \<Rightarrow> False)"

definition recommendation :: "pyval \<Rightarrow> pyval \<Rightarrow> pyval \<Rightarrow> pystr \<Rightarrow> pyval" where
  "recommendation med dosage duration source =
     PDict [(py ''Recommended_Medication'', med),
            (py ''Dosage'', dosage),
            (py ''Duration'', duration),
            (py ''Source'', PStr source)]"

definition rule_recommendation :: "string \<Rightarrow> string \<Rightarrow> string \<Rightarrow> pyval" where
  "rule_recommendation med dosage duration =
     recommendation (PStr (py med)) (PStr (py dosage)) (PStr (py duration)) (py ''rule'')"

text \<open>The answer built from the first matching row \<open>r = row.iloc[0].to_dict()\<close>.\<close>

definition row_recommendation :: "pydict \<Rightarrow> pyval" where
  "row_recommendation r =
     recommendation
       (dict_get r (py ''Recommended_Medication'') (PStr (py ''No recommendation'')))
       (dict_get r (py ''Dosage'') (PStr (py ''N/A'')))
       (dict_get r (py ''Duration'') (PStr (py ''N/A'')))
       (py ''medication_map.csv'')"

definition recommend_from_complication :: "runtime \<Rightarrow> frame \<Rightarrow> pyval \<Rightarrow> exn + pyval" where
  "recommend_from_complication R med_map_df complication =
     (if py ''Complication'' \<notin> set (columns med_map_df)
      then Inl (KeyError (py ''Complication''))
      else
        (case filter (complication_is R (str_lower R (py_str R complication)))
                (rows med_map_df) of
           r # _ \<Rightarrow>
             Inr (row_recommendation r)
         | [] \<Rightarrow>
             (let comp = str_lower R (py_str R complication) in
              if str_contains (py ''infect'') comp
              then Inr (rule_recommendation ''Antibiotics'' ''500 mg/day'' ''7 days'')
              else if str_contains (py ''bleed'') comp
              then Inr (rule_recommendation ''Blood Transfusion + Hemostatic Agent''
                          ''2 units'' ''1 days'')
              else if str_contains (py ''organ'') comp \<or> str_contains (py ''failure'') comp
              then Inr (rule_recommendation ''IV Fluids + Vasopressors'' ''2 L/day'' ''5 days'')
              else Inr (rule_recommendation ''Pain Management'' ''100 mg/day'' ''1 days''))))"

subsection \<open>\<open>validate_and_build_df\<close>\<close>

fun records_of :: "pyval \<Rightarrow> pyval list option" where
  "records_of (PDict d) = Some [PDict d]"
| "records_of (PList xs) = Some xs"
| "records_of v = None"

definition ensure_column :: "pystr \<Rightarrow> frame \<Rightarrow> frame" where
  "ensure_column col df = (if col \<notin> set (columns df) then setitem df col PNone else df)"

definition validate_and_build_df :: "runtime \<Rightarrow> pyval \<Rightarrow> exn + frame" where
  "validate_and_build_df R payload =
     (case records_of payload of
        None \<Rightarrow> Inl (ValueError (py ''Payload must be a JSON object or array of objects.''))
      | Some records \<Rightarrow>
          (case DataFrame R records of
             Inl e \<Rightarrow> Inl e
           | Inr df \<Rightarrow>
               (case EXPECTED_FEATURES of
                  None \<Rightarrow> Inr df
                | Some features \<Rightarrow> getitem_columns (fold ensure_column features df) features)))"

subsection \<open>The fitted pipeline and the request handlers\<close>

text \<open>
  The pipeline loaded from \<^verbatim>\<open>complication_predictor_pipeline.pkl\<close> is data of the
  deployment: \<open>model.predict\<close> and \<open>model.predict_proba(df).tolist()\<close> return or raise,
  and \<open>classes_\<close> is there or not. The labels are strings, since
  \<^verbatim>\<open>train_model.py\<close> fits the classifier on the \<open>Complication\<close> column.
\<close>

record model =
  model_predict :: "frame \<Rightarrow> exn + pystr list"
  model_predict_proba :: "frame \<Rightarrow> exn + pyfloat list list"
  model_classes :: "pystr list option"

text \<open>The calls a handler makes on the pipeline, in order.\<close>

datatype call = Predict frame | PredictProba frame

record response =
  status_code :: nat
  body :: pyval

text \<open>\<open>return jsonify(d)\<close> answers 200, \<open>return jsonify(d), 400\<close> answers 400.\<close>

definition ok_response :: "pydict \<Rightarrow> response" where
  "ok_response d = \<lparr>status_code = 200, body = PDict ((py ''status'', PStr (py ''ok'')) # d)\<rparr>"

definition error_response :: "runtime \<Rightarrow> exn \<Rightarrow> response" where
  "error_response R e =
     \<lparr>status_code = 400,
      body = PDict [(py ''status'', PStr (py ''error'')),
                    (py ''error'', PStr (exn_msg e)),
                    (py ''trace'', PStr (format_exc R e))]\<rparr>"

text \<open>
  \<open>for idx, x in enumerate(xs): ... out.append(entry)\<close>: the entries in the order of
  \<open>xs\<close>; an exception in the body leaves the loop.
\<close>

fun for_enumerate :: "(nat \<Rightarrow> 'a \<Rightarrow> exn + 'b) \<Rightarrow> nat \<Rightarrow> 'a list \<Rightarrow> exn + 'b list" where
  "for_enumerate f idx [] = Inr []"
| "for_enumerate f idx (x # xs) =
     (case f idx x of
        Inl e \<Rightarrow> Inl e
      | Inr y \<Rightarrow> (case for_enumerate f (Suc idx) xs of
                    Inl e \<Rightarrow> Inl e
                  | Inr ys \<Rightarrow> Inr (y # ys)))"

text \<open>\<open>probs[idx]\<close> on a list.\<close>

definition list_index :: "'a list \<Rightarrow> nat \<Rightarrow> exn + 'a" where
  "list_index xs i =
     (if i < length xs then Inr (xs ! i) else Inl (IndexError (py ''list index out of range'')))"

text \<open>
  \<open>dict(zip(classes, probs[idx])) if classes else probs[idx]\<close>, with
  \<open>classes = list(model.classes_) if hasattr(model, "classes_") else []\<close>.
\<close>

definition probabilities :: "model \<Rightarrow> pyfloat list \<Rightarrow> pyval" where
  "probabilities M row =
     (let classes = (case model_classes M of Some cs \<Rightarrow> cs | None \<Rightarrow> []) in
      if classes \<noteq> [] then PDict (py_dict (zip classes (map PFloat row)))
      else PList (map PFloat row))"

definition with_probabilities ::
  "model \<Rightarrow> pyfloat list list option \<Rightarrow> nat \<Rightarrow> pydict \<Rightarrow> exn + pyval" where
  "with_probabilities M probs idx entry =
     (case probs of
        None \<Rightarrow> Inr (PDict entry)
      | Some pr \<Rightarrow>
          (case list_index pr idx of
             Inl e \<Rightarrow> Inl e
           | Inr row \<Rightarrow> Inr (PDict (dict_set entry (py ''Probabilities'') (probabilities M row)))))"

text \<open>The inner \<open>try\<close>: an exception of \<open>predict_proba\<close> leaves \<open>probs = None\<close>.\<close>

definition try_predict_proba :: "model \<Rightarrow> frame \<Rightarrow> pyfloat list list option" where
  "try_predict_proba M df = (case model_predict_proba M df of Inl e \<Rightarrow> None | Inr pr \<Rightarrow> Some pr)"

text \<open>
  A handler takes what \<open>request.get_json()\<close> gave, the parsed body or the exception it
  raised, and returns its response and the calls it made on the pipeline.
\<close>

definition predict_entry :: "model \<Rightarrow> pyfloat list list option \<Rightarrow> nat \<Rightarrow> pystr \<Rightarrow> exn + pyval" where
  "predict_entry M probs p_idx p =
     with_probabilities M probs p_idx [(py ''Complication'', PStr p)]"

definition predict :: "runtime \<Rightarrow> model \<Rightarrow> exn + pyval \<Rightarrow> response \<times> call list" where
  "predict R M request =
     (case request of
        Inl e \<Rightarrow> (error_response R e, [])
      | Inr payload \<Rightarrow>
          (case validate_and_build_df R payload of
             Inl e \<Rightarrow> (error_response R e, [])
           | Inr df \<Rightarrow>
               (case model_predict M df of
                  Inl e \<Rightarrow> (error_response R e, [Predict df])
                | Inr preds \<Rightarrow>
                    (case for_enumerate (predict_entry M (try_predict_proba M df)) 0 preds of
                       Inl e \<Rightarrow> (error_response R e, [Predict df, PredictProba df])
                     | Inr results \<Rightarrow>
                         (ok_response [(py ''predictions'', PList results)],
                          [Predict df, PredictProba df])))))"

definition recommend_entry :: "runtime \<Rightarrow> frame \<Rightarrow> nat \<Rightarrow> pystr \<Rightarrow> exn + pyval" where
  "recommend_entry R med_map_df idx p =
     (case recommend_from_complication R med_map_df (PStr p) of
        Inl e \<Rightarrow> Inl e
      | Inr rec \<Rightarrow> Inr (PDict [(py ''Complication'', PStr p), (py ''Recommendation'', rec)]))"

text \<open>
  \<open>payload["Complication"]\<close> when \<open>isinstance(payload, dict) and "Complication" in payload\<close>.
\<close>

definition complication_key :: "pyval \<Rightarrow> pyval option" where
  "complication_key payload =
     (case the_dict payload of
        Some d \<Rightarrow> map_of d (py ''Complication'')
      | None \<Rightarrow> None)"

definition recommend :: "runtime \<Rightarrow> model \<Rightarrow> frame \<Rightarrow> exn + pyval \<Rightarrow> response \<times> call list" where
  "recommend R M med_map_df request =
     (case request of
        Inl e \<Rightarrow> (error_response R e, [])
      | Inr payload \<Rightarrow>
          if \<not> truthy payload
          then (error_response R (ValueError (py ''Empty request body'')), [])
          else
            (case complication_key payload of
               Some compl \<Rightarrow>
                 (case recommend_from_complication R med_map_df compl of
                    Inl e \<Rightarrow> (error_response R e, [])
                  | Inr rec \<Rightarrow>
                      (ok_response [(py ''complication'', compl), (py ''recommendation'', rec)], []))
             | None \<Rightarrow>
                 (case validate_and_build_df R payload of
                    Inl e \<Rightarrow> (error_response R e, [])
                  | Inr df \<Rightarrow>
                      (case model_predict M df of
                         Inl e \<Rightarrow> (error_response R e, [Predict df])
                       | Inr preds \<Rightarrow>
                           (case for_enumerate (recommend_entry R med_map_df) 0 preds of
                              Inl e \<Rightarrow> (error_response R e, [Predict df])
                            | Inr results \<Rightarrow>
                                (ok_response [(py ''recommendations'', PList results)],
                                 [Predict df]))))))"

definition predict_recommend_entry ::
  "runtime \<Rightarrow> model \<Rightarrow> frame \<Rightarrow> pyfloat list list option \<Rightarrow> nat \<Rightarrow> pystr \<Rightarrow> exn + pyval" where
  "predict_recommend_entry R M med_map_df probs idx p =
     (case recommend_from_complication R med_map_df (PStr p) of
        Inl e \<Rightarrow> Inl e
      | Inr rec \<Rightarrow>
          with_probabilities M probs idx
            [(py ''Complication'', PStr p), (py ''Recommendation'', rec)])"

definition predict_recommend ::
  "runtime \<Rightarrow> model \<Rightarrow> frame \<Rightarrow> exn + pyval \<Rightarrow> response \<times> call list" where
  "predict_recommend R M med_map_df request =
     (case request of
        Inl e \<Rightarrow> (error_response R e, [])
      | Inr payload \<Rightarrow>
          (case validate_and_build_df R payload of
             Inl e \<Rightarrow> (error_response R e, [])
           | Inr df \<Rightarrow>
               (case model_predict M df of
                  Inl e \<Rightarrow> (error_response R e, [Predict df])
                | Inr preds \<Rightarrow>
                    (case for_enumerate
                            (predict_recommend_entry R M med_map_df (try_predict_proba M df))
                            0 preds of
                       Inl e \<Rightarrow> (error_response R e, [Predict df, PredictProba df])
                     | Inr out \<Rightarrow>
                         (ok_response [(py ''results'', PList out)],
                          [Predict df, PredictProba df])))))"

section \<open>A deployment for the examples\<close>

text \<open>
  The examples below run on strings over ASCII and U+0131, LATIN SMALL LETTER DOTLESS I.
  In Unicode's case tables its uppercase is U+0049, the letter I, and it is its own
  lowercase; \<open>example_runtime\<close> has this row and maps the ASCII letters as Python does.
\<close>

definition example_runtime :: runtime where
  "example_runtime =
     \<lparr>unicode_lower = map ascii_lower,
      unicode_upper = map (\<lambda>c. if c = 305 then 73 else ascii_upper c),
      repr = (\<lambda>v. py ''...''),
      DataFrame_other = (\<lambda>xs. Inl (Exn (py ''TypeError'') (py ''not a list of records''))),
      format_exc = (\<lambda>e. py ''Traceback (most recent call last): '' @ exn_class e @ py '': '' @ exn_msg e)\<rparr>"

text \<open>
  A pipeline that labels every row \<open>Infection\<close> with probability one, and one without a
  probability interface.
\<close>

definition example_model :: model where
  "example_model =
     \<lparr>model_predict = (\<lambda>df. Inr (map (\<lambda>r. py ''Infection'') (rows df))),
      model_predict_proba = (\<lambda>df. Inr (map (\<lambda>r. [Finite 1 0, Finite 0 0]) (rows df))),
      model_classes = Some [py ''Infection'', py ''None'']\<rparr>"

definition no_proba_model :: model where
  "no_proba_model =
     \<lparr>model_predict = (\<lambda>df. Inr (map (\<lambda>r. py ''Infection'') (rows df))),
      model_predict_proba =
        (\<lambda>df. Inl (Exn (py ''AttributeError'') (py ''predict_proba is not available''))),
      model_classes = None\<rparr>"

section \<open>Properties of the resolver\<close>

subsection \<open>Case mapping on ASCII strings\<close>

lemma ascii_lower_idem: "ascii_lower (ascii_lower c) = ascii_lower c"
  by (simp add: ascii_lower_def)

lemma ascii_lower_upper: "ascii_lower (ascii_upper c) = ascii_lower c"
  by (auto simp: ascii_lower_def ascii_upper_def)

lemma is_ascii_map_lower: "is_ascii s \<Longrightarrow> is_ascii (map ascii_lower s)"
  by (induction s) (auto simp: is_ascii_def ascii_lower_def)

lemma is_ascii_map_upper: "is_ascii s \<Longrightarrow> is_ascii (map ascii_upper s)"
  by (induction s) (auto simp: is_ascii_def ascii_upper_def)

lemma str_lower_lower: "is_ascii s \<Longrightarrow> str_lower R (str_lower R s) = str_lower R s"
  by (simp add: str_lower_def is_ascii_map_lower ascii_lower_idem)

lemma str_lower_upper: "is_ascii s \<Longrightarrow> str_lower R (str_upper R s) = str_lower R s"
  by (simp add: str_lower_def str_upper_def is_ascii_map_upper ascii_lower_upper)

lemma recommend_from_complication_cong:
  "str_lower R (py_str R a) = str_lower R (py_str R b) \<Longrightarrow>
   recommend_from_complication R med a = recommend_from_complication R med b"
  by (simp add: recommend_from_complication_def Let_def split: list.splits)

lemma filter_complication_Cons:
  "filter (complication_is R k) rs = r # rest \<Longrightarrow> r \<in> set rs \<and> complication_is R k r"
proof -
  assume "filter (complication_is R k) rs = r # rest"
  then have "r \<in> set (filter (complication_is R k) rs)"
    by simp
  then show ?thesis
    by simp
qed

text \<open>
  C1. Given a table with a \<open>Complication\<close> column, \<open>recommend_from_complication\<close>
  returns for every string exactly one recommendation, never an exception: the answer of a
  row of the table whose label equals the string in lower case, or, when there is no such
  row, one of the three keyword answers if a keyword occurs in the lower-cased string, or
  the generic default if none does. The answer is a function of the runtime, the table and
  the string alone.
\<close>

theorem resolution_total:
  assumes col: "py ''Complication'' \<in> set (columns med)"
  shows "\<exists>rec. recommend_from_complication R med (PStr s) = Inr rec
           \<and> (\<forall>rec'. recommend_from_complication R med (PStr s) = Inr rec' \<longrightarrow> rec' = rec)
           \<and> ((\<exists>r\<in>set (rows med). complication_is R (str_lower R s) r
                  \<and> rec = row_recommendation r)
              \<or> ((\<forall>r\<in>set (rows med). \<not> complication_is R (str_lower R s) r)
                  \<and> (str_contains (py ''infect'') (str_lower R s)
                     \<or> str_contains (py ''bleed'') (str_lower R s)
                     \<or> str_contains (py ''organ'') (str_lower R s)
                     \<or> str_contains (py ''failure'') (str_lower R s))
                  \<and> rec \<in> {rule_recommendation ''Antibiotics'' ''500 mg/day'' ''7 days'',
                            rule_recommendation ''Blood Transfusion + Hemostatic Agent''
                              ''2 units'' ''1 days'',
                            rule_recommendation ''IV Fluids + Vasopressors'' ''2 L/day'' ''5 days''})
              \<or> ((\<forall>r\<in>set (rows med). \<not> complication_is R (str_lower R s) r)
                  \<and> \<not> str_contains (py ''infect'') (str_lower R s)
                  \<and> \<not> str_contains (py ''bleed'') (str_lower R s)
                  \<and> \<not> str_contains (py ''organ'') (str_lower R s)
                  \<and> \<not> str_contains (py ''failure'') (str_lower R s)
                  \<and> rec = rule_recommendation ''Pain Management'' ''100 mg/day'' ''1 days''))"
proof (cases "filter (complication_is R (str_lower R s)) (rows med)")
  case Nil
  then have none: "\<forall>r\<in>set (rows med). \<not> complication_is R (str_lower R s) r"
    by (simp add: filter_empty_conv)
  show ?thesis
    using col Nil none by (simp add: recommend_from_complication_def Let_def)
next
  case (Cons r rest)
  then have "r \<in> set (rows med) \<and> complication_is R (str_lower R s) r"
    by (rule filter_complication_Cons)
  then show ?thesis
    using col Cons by (auto simp: recommend_from_complication_def)
qed

theorem resolution_total_witness:
  "py ''Complication'' \<in> set (columns default_med_map)
   \<and> recommend_from_complication example_runtime default_med_map (PStr (py ''None'')) =
       Inr (row_recommendation
              [(py ''Complication'', PStr (py ''None'')),
               (py ''Recommended_Medication'', PStr (py ''Pain Management'')),
               (py ''Dosage'', PStr (py ''100 mg/day'')),
               (py ''Duration'', PStr (py ''1 days''))])
   \<and> (\<exists>rec. recommend_from_complication example_runtime default_med_map
               (PStr (py ''sepsis'')) = Inr rec)"
proof -
  have col: "py ''Complication'' \<in> set (columns default_med_map)"
    by code_simp
  have none: "recommend_from_complication example_runtime default_med_map (PStr (py ''None'')) =
       Inr (row_recommendation
              [(py ''Complication'', PStr (py ''None'')),
               (py ''Recommended_Medication'', PStr (py ''Pain Management'')),
               (py ''Dosage'', PStr (py ''100 mg/day'')),
               (py ''Duration'', PStr (py ''1 days''))])"
    by code_simp
  from resolution_total [OF col, of example_runtime "py ''sepsis''"]
  have "\<exists>rec. recommend_from_complication example_runtime default_med_map
               (PStr (py ''sepsis'')) = Inr rec"
    by blast
  with col none show ?thesis
    by blast
qed



lemma lower_Infection: "str_lower R (py ''Infection'') = py ''infection''"
  by (simp add: str_lower_def is_ascii_def py_def ascii_lower_def)

lemma upper_Infection: "str_upper R (py ''Infection'') = py ''INFECTION''"
  by (simp add: str_upper_def is_ascii_def py_def ascii_upper_def)

text \<open>
  C4, as amended. Resolution looks at a string only through its lowercase form. So a
  string and its lowercase form resolve to the same recommendation whenever lowercasing
  the lowercase form changes nothing, which \<open>str.lower\<close> guarantees for every string; and
  a string and its uppercase form resolve to the same recommendation whenever the
  uppercase form lowercases to the lowercase form of the string. Both conditions hold for
  every ASCII string, so there the string, its lowercase form and its uppercase form
  resolve identically.
\<close>

theorem case_insensitive_resolution:
  "(str_lower R (str_lower R s) = str_lower R s \<longrightarrow>
      recommend_from_complication R med (PStr (str_lower R s)) =
        recommend_from_complication R med (PStr s))
   \<and> (str_lower R (str_upper R s) = str_lower R s \<longrightarrow>
      recommend_from_complication R med (PStr (str_upper R s)) =
        recommend_from_complication R med (PStr s))
   \<and> (is_ascii s \<longrightarrow>
      str_lower R (str_lower R s) = str_lower R s
      \<and> str_lower R (str_upper R s) = str_lower R s
      \<and> recommend_from_complication R med (PStr (str_lower R s)) =
           recommend_from_complication R med (PStr s)
      \<and> recommend_from_complication R med (PStr (str_upper R s)) =
           recommend_from_complication R med (PStr s))"
proof -
  have lower: "recommend_from_complication R med (PStr (str_lower R s)) =
        recommend_from_complication R med (PStr s)"
    if "str_lower R (str_lower R s) = str_lower R s"
    by (rule recommend_from_complication_cong) (simp add: that)
  have upper: "recommend_from_complication R med (PStr (str_upper R s)) =
        recommend_from_complication R med (PStr s)"
    if "str_lower R (str_upper R s) = str_lower R s"
    by (rule recommend_from_complication_cong) (simp add: that)
  from lower upper show ?thesis
    by (simp add: str_lower_lower str_lower_upper)
qed

theorem case_insensitive_resolution_witness:
  "str_lower example_runtime (str_lower example_runtime (305 # py ''NFECTION'')) =
     str_lower example_runtime (305 # py ''NFECTION'')
   \<and> str_lower example_runtime (305 # py ''NFECTION'') = 305 # py ''nfection''
   \<and> recommend_from_complication example_runtime default_med_map
        (PStr (305 # py ''nfection'')) =
       recommend_from_complication example_runtime default_med_map
        (PStr (305 # py ''NFECTION''))
   \<and> is_ascii (py ''Infection'')
   \<and> recommend_from_complication example_runtime default_med_map (PStr (py ''infection'')) =
       recommend_from_complication example_runtime default_med_map (PStr (py ''Infection''))
   \<and> recommend_from_complication example_runtime default_med_map (PStr (py ''INFECTION'')) =
       recommend_from_complication example_runtime default_med_map (PStr (py ''Infection''))"
proof -
  have idem: "str_lower example_runtime (str_lower example_runtime (305 # py ''NFECTION'')) =
     str_lower example_runtime (305 # py ''NFECTION'')"
    by code_simp
  have low: "str_lower example_runtime (305 # py ''NFECTION'') = 305 # py ''nfection''"
    by code_simp
  have a: "is_ascii (py ''Infection'')"
    by (simp add: is_ascii_def py_def)
  from case_insensitive_resolution [of example_runtime "305 # py ''NFECTION''" default_med_map]
    idem
  have one: "recommend_from_complication example_runtime default_med_map
        (PStr (str_lower example_runtime (305 # py ''NFECTION''))) =
       recommend_from_complication example_runtime default_med_map
        (PStr (305 # py ''NFECTION''))"
    by blast
  from case_insensitive_resolution [of example_runtime "py ''Infection''" default_med_map] a
  have two: "recommend_from_complication example_runtime default_med_map
        (PStr (str_lower example_runtime (py ''Infection''))) =
       recommend_from_complication example_runtime default_med_map (PStr (py ''Infection''))
     \<and> recommend_from_complication example_runtime default_med_map
        (PStr (str_upper example_runtime (py ''Infection''))) =
       recommend_from_complication example_runtime default_med_map (PStr (py ''Infection''))"
    by blast
  from idem low a one two show ?thesis
    by (simp add: lower_Infection upper_Infection)
qed

text \<open>
  C4 as stated fails for the uppercase form beyond ASCII: the uppercase form of
  \<open>infection\<close> written with U+0131 for its first letter is \<open>INFECTION\<close>, which the built-in table
  answers from its row \<open>Infection\<close>, while the string itself is its own lowercase form,
  matches no row and holds no keyword.
\<close>

theorem case_insensitive_counterexample:
  "recommend_from_complication example_runtime default_med_map
      (PStr (str_upper example_runtime (305 # py ''nfection'')))
   \<noteq> recommend_from_complication example_runtime default_med_map
      (PStr (305 # py ''nfection''))"
  by code_simp

subsection \<open>The default and the provenance tag\<close>

lemma truthy_has_key: "map_of d k = Some v \<Longrightarrow> truthy (PDict d)"
  by (cases d) auto

lemma resolver_no_match:
  assumes "py ''Complication'' \<in> set (columns med)"
    and "\<forall>r\<in>set (rows med). \<not> complication_is R (str_lower R s) r"
    and "\<not> str_contains (py ''infect'') (str_lower R s)"
    and "\<not> str_contains (py ''bleed'') (str_lower R s)"
    and "\<not> str_contains (py ''organ'') (str_lower R s)"
    and "\<not> str_contains (py ''failure'') (str_lower R s)"
  shows "recommend_from_complication R med (PStr s) =
           Inr (rule_recommendation ''Pain Management'' ''100 mg/day'' ''1 days'')"
proof -
  from assms(2) have "filter (complication_is R (str_lower R s)) (rows med) = []"
    by (simp add: filter_empty_conv)
  with assms show ?thesis
    by (simp add: recommend_from_complication_def Let_def)
qed

lemma recommend_direct:
  assumes "map_of d (py ''Complication'') = Some c"
  shows "recommend R M med (Inr (PDict d)) =
          (case recommend_from_complication R med c of
             Inl e \<Rightarrow> (error_response R e, [])
           | Inr rec \<Rightarrow>
               (ok_response [(py ''complication'', c), (py ''recommendation'', rec)], []))"
  using assms truthy_has_key [OF assms] by (simp add: recommend_def complication_key_def)

text \<open>
  C3. A string that matches no row of the table and holds none of \<open>infect\<close>, \<open>bleed\<close>,
  \<open>organ\<close>, \<open>failure\<close> in lower case resolves to the generic default, Pain Management,
  100 mg/day, 1 days, with source \<open>rule\<close>; posted to \<open>/recommend\<close> under the key
  \<open>Complication\<close> it is answered with status \<open>ok\<close>, the label and this recommendation.
\<close>

theorem unknown_gets_default:
  assumes col: "py ''Complication'' \<in> set (columns med)"
    and none: "\<forall>r\<in>set (rows med). \<not> complication_is R (str_lower R s) r"
    and k1: "\<not> str_contains (py ''infect'') (str_lower R s)"
    and k2: "\<not> str_contains (py ''bleed'') (str_lower R s)"
    and k3: "\<not> str_contains (py ''organ'') (str_lower R s)"
    and k4: "\<not> str_contains (py ''failure'') (str_lower R s)"
  shows "recommend_from_complication R med (PStr s) =
           Inr (PDict [(py ''Recommended_Medication'', PStr (py ''Pain Management'')),
                       (py ''Dosage'', PStr (py ''100 mg/day'')),
                       (py ''Duration'', PStr (py ''1 days'')),
                       (py ''Source'', PStr (py ''rule''))])
       \<and> recommend R M med (Inr (PDict [(py ''Complication'', PStr s)])) =
           (\<lparr>status_code = 200,
             body = PDict [(py ''status'', PStr (py ''ok'')),
                           (py ''complication'', PStr s),
                           (py ''recommendation'',
                            PDict [(py ''Recommended_Medication'', PStr (py ''Pain Management'')),
                                   (py ''Dosage'', PStr (py ''100 mg/day'')),
                                   (py ''Duration'', PStr (py ''1 days'')),
                                   (py ''Source'', PStr (py ''rule''))])]\<rparr>, [])"
proof -
  have r: "recommend_from_complication R med (PStr s) =
             Inr (rule_recommendation ''Pain Management'' ''100 mg/day'' ''1 days'')"
    using assms by (rule resolver_no_match)
  have d: "map_of [(py ''Complication'', PStr s)] (py ''Complication'') = Some (PStr s)"
    by simp
  show ?thesis
    using r recommend_direct [OF d, of R M med]
    by (simp add: rule_recommendation_def recommendation_def ok_response_def)
qed

theorem unknown_gets_default_witness:
  "recommend example_runtime example_model default_med_map
      (Inr (PDict [(py ''Complication'', PStr (py ''XYZ-unknown''))])) =
     (\<lparr>status_code = 200,
       body = PDict [(py ''status'', PStr (py ''ok'')),
                     (py ''complication'', PStr (py ''XYZ-unknown'')),
                     (py ''recommendation'',
                      PDict [(py ''Recommended_Medication'', PStr (py ''Pain Management'')),
                             (py ''Dosage'', PStr (py ''100 mg/day'')),
                             (py ''Duration'', PStr (py ''1 days'')),
                             (py ''Source'', PStr (py ''rule''))])]\<rparr>, [])"
proof -
  have col: "py ''Complication'' \<in> set (columns default_med_map)"
    by code_simp
  have none: "\<forall>r\<in>set (rows default_med_map).
      \<not> complication_is example_runtime (str_lower example_runtime (py ''XYZ-unknown'')) r"
    by code_simp
  have k1: "\<not> str_contains (py ''infect'') (str_lower example_runtime (py ''XYZ-unknown''))"
    by code_simp
  have k2: "\<not> str_contains (py ''bleed'') (str_lower example_runtime (py ''XYZ-unknown''))"
    by code_simp
  have k3: "\<not> str_contains (py ''organ'') (str_lower example_runtime (py ''XYZ-unknown''))"
    by code_simp
  have k4: "\<not> str_contains (py ''failure'') (str_lower example_runtime (py ''XYZ-unknown''))"
    by code_simp
  from unknown_gets_default [OF col none k1 k2 k3 k4, of example_model]
  show ?thesis
    by (rule conjunct2)
qed

text \<open>
  C9, as amended. Every recommendation the resolver returns has a \<open>Source\<close>: the name
  of the table's file, \<open>medication_map.csv\<close>, when a row of the table matches, and
  \<open>rule\<close> for every keyword or default answer.
\<close>

theorem provenance_tag:
  assumes col: "py ''Complication'' \<in> set (columns med)"
  shows "\<exists>rec. recommend_from_complication R med (PStr s) = Inr (PDict rec)
           \<and> map_of rec (py ''Source'') =
               Some (PStr (if \<exists>r\<in>set (rows med). complication_is R (str_lower R s) r
                           then py ''medication_map.csv'' else py ''rule''))"
proof (cases "filter (complication_is R (str_lower R s)) (rows med)")
  case Nil
  then have none: "\<forall>r\<in>set (rows med). \<not> complication_is R (str_lower R s) r"
    by (simp add: filter_empty_conv)
  have src: "map_of [(py ''Recommended_Medication'', a), (py ''Dosage'', b),
                     (py ''Duration'', c), (py ''Source'', PStr (py ''rule''))]
               (py ''Source'') = Some (PStr (py ''rule''))" for a b c
    by (simp add: py_def)
  show ?thesis
    using col Nil none src
    by (simp add: recommend_from_complication_def Let_def rule_recommendation_def
        recommendation_def)
next
  case (Cons r rest)
  then have m: "r \<in> set (rows med) \<and> complication_is R (str_lower R s) r"
    by (rule filter_complication_Cons)
  have src: "map_of [(py ''Recommended_Medication'', a), (py ''Dosage'', b),
                     (py ''Duration'', c), (py ''Source'', PStr (py ''medication_map.csv''))]
               (py ''Source'') = Some (PStr (py ''medication_map.csv''))" for a b c
    by (simp add: py_def)
  have "\<exists>r\<in>set (rows med). complication_is R (str_lower R s) r"
    using m by blast
  then show ?thesis
    using col Cons src
    by (simp add: recommend_from_complication_def row_recommendation_def recommendation_def)
qed

theorem provenance_tag_witness:
  "py ''Complication'' \<in> set (columns default_med_map)
   \<and> (\<exists>rec. recommend_from_complication example_runtime default_med_map
               (PStr (py ''BLEEDING'')) = Inr (PDict rec)
          \<and> map_of rec (py ''Source'') = Some (PStr (py ''medication_map.csv'')))"
proof -
  have col: "py ''Complication'' \<in> set (columns default_med_map)"
    by code_simp
  have m: "\<exists>r\<in>set (rows default_med_map).
      complication_is example_runtime (str_lower example_runtime (py ''BLEEDING'')) r"
    by code_simp
  from provenance_tag [OF col, of example_runtime "py ''BLEEDING''"] m col
  show ?thesis
    by simp
qed

text \<open>
  C9 as stated names the tag of a table answer \<open>table\<close>; the row \<open>Infection\<close> of the
  built-in table is returned with the tag \<open>medication_map.csv\<close>.
\<close>

theorem provenance_table_counterexample:
  "list_ex (complication_is example_runtime (str_lower example_runtime (py ''Infection'')))
      (rows default_med_map)
   \<and> recommend_from_complication example_runtime default_med_map (PStr (py ''Infection'')) =
       Inr (PDict [(py ''Recommended_Medication'', PStr (py ''Antibiotics'')),
                   (py ''Dosage'', PStr (py ''500 mg/day'')),
                   (py ''Duration'', PStr (py ''7 days'')),
                   (py ''Source'', PStr (py ''medication_map.csv''))])
   \<and> py ''medication_map.csv'' \<noteq> py ''table''"
  by code_simp

section \<open>Properties of the coercion\<close>

lemma those_the_dict: "those (map the_dict (map PDict ds)) = Some ds"
  by (induction ds) simp_all

lemma DataFrame_of_dicts: "DataFrame R (map PDict ds) = Inr (DataFrame_dicts ds)"
  by (simp only: DataFrame_def those_the_dict option.case)

lemma map_of_dict_set: "map_of (dict_set r k v) c = (if c = k then Some v else map_of r c)"
  by (induction r k v rule: dict_set.induct) auto

lemma map_of_cells: "map_of (map (\<lambda>c. (c, f c)) cs) c = (if c \<in> set cs then Some (f c) else None)"
  by (induction cs) auto

lemma set_add_key: "set (add_key acc k) = insert k (set acc)"
  by (auto simp: add_key_def)

lemma set_foldl_add_key: "set (foldl add_key acc ks) = set acc \<union> set ks"
  by (induction ks arbitrary: acc) (auto simp: set_add_key)

lemma set_foldl_columns:
  "set (foldl (\<lambda>acc d. foldl add_key acc (map fst d)) acc ds) = set acc \<union> (\<Union>d\<in>set ds. fst ` set d)"
  by (induction ds arbitrary: acc) (auto simp: set_foldl_add_key)

lemma set_columns_of: "set (columns_of ds) = (\<Union>d\<in>set ds. fst ` set d)"
  by (simp add: columns_of_def set_foldl_columns)

lemma in_columns_of: "c \<in> set (columns_of ds) \<longleftrightarrow> (\<exists>d\<in>set ds. map_of d c \<noteq> None)"
  by (auto simp: set_columns_of map_of_eq_None_iff)

lemma columns_ensure_column: "set (columns (ensure_column col df)) = insert col (set (columns df))"
  by (auto simp: ensure_column_def setitem_def set_add_key)

lemma columns_fold_ensure:
  "set (columns (fold ensure_column cs df)) = set (columns df) \<union> set cs"
  by (induction cs arbitrary: df) (auto simp: columns_ensure_column)

lemma rows_ensure_column:
  "rows (ensure_column col df) =
     map (\<lambda>r. if col \<notin> set (columns df) then dict_set r col PNone else r) (rows df)"
  by (simp add: ensure_column_def setitem_def)

lemma rows_fold_ensure:
  "\<exists>g. rows (fold ensure_column cs df) = map g (rows df)
       \<and> (\<forall>r c. map_of (g r) c =
             (if c \<in> set cs \<and> c \<notin> set (columns df) then Some PNone else map_of r c))"
proof (induction cs arbitrary: df)
  case Nil
  have "rows (fold ensure_column [] df) = map (\<lambda>r. r) (rows df)"
    by simp
  then show ?case
    by (intro exI [of _ "\<lambda>r. r"]) simp
next
  case (Cons a cs)
  let ?g1 = "\<lambda>r. if a \<notin> set (columns df) then dict_set r a PNone else r"
  obtain g2 where g2: "rows (fold ensure_column cs (ensure_column a df)) =
        map g2 (rows (ensure_column a df))"
      and m2: "\<And>r c. map_of (g2 r) c =
        (if c \<in> set cs \<and> c \<notin> set (columns (ensure_column a df)) then Some PNone
         else map_of r c)"
    using Cons.IH [of "ensure_column a df"] by blast
  have "rows (fold ensure_column (a # cs) df) = map (\<lambda>r. g2 (?g1 r)) (rows df)"
    by (simp add: g2 rows_ensure_column o_def)
  moreover have "map_of (g2 (?g1 r)) c =
      (if c \<in> set (a # cs) \<and> c \<notin> set (columns df) then Some PNone else map_of r c)" for r c
    by (auto simp: m2 columns_ensure_column map_of_dict_set)
  ultimately show ?case
    by blast
qed

lemma getitem_columns_subset:
  "set cols \<subseteq> set (columns df) \<Longrightarrow>
   getitem_columns df cols =
     Inr \<lparr>columns = cols,
          rows = map (\<lambda>r. map (\<lambda>c. (c, dict_get r c (PFloat NaN))) cols) (rows df)\<rparr>"
proof -
  assume "set cols \<subseteq> set (columns df)"
  then have "filter (\<lambda>c. c \<notin> set (columns df)) cols = []"
    by (auto simp: filter_empty_conv)
  then show ?thesis
    by (simp add: getitem_columns_def)
qed

lemma build_features:
  "getitem_columns (fold ensure_column features (DataFrame_dicts ds)) features =
     Inr \<lparr>columns = features,
          rows = map (\<lambda>d. map (\<lambda>c. (c, if c \<in> set (columns_of ds)
                                         then dict_get d c (PFloat NaN) else PNone)) features) ds\<rparr>"
proof -
  let ?df = "DataFrame_dicts ds"
  let ?h = "\<lambda>d. map (\<lambda>c. (c, dict_get d c (PFloat NaN))) (columns_of ds)"
  have cols: "columns ?df = columns_of ds" and rws: "rows ?df = map ?h ds"
    by (simp_all add: DataFrame_dicts_def)
  obtain g where g: "rows (fold ensure_column features ?df) = map g (rows ?df)"
      and m: "\<And>r c. map_of (g r) c =
        (if c \<in> set features \<and> c \<notin> set (columns ?df) then Some PNone else map_of r c)"
    using rows_fold_ensure [of features ?df] by blast
  have cell: "dict_get (g (?h d)) c (PFloat NaN) =
      (if c \<in> set (columns_of ds) then dict_get d c (PFloat NaN) else PNone)"
    if "c \<in> set features" for d c
    using that by (simp add: dict_get_def [of "g (?h d)"] m map_of_cells cols)
  have row: "map (\<lambda>c. (c, dict_get (g (?h d)) c (PFloat NaN))) features =
      map (\<lambda>c. (c, if c \<in> set (columns_of ds) then dict_get d c (PFloat NaN) else PNone)) features"
    for d
    by (rule map_cong) (simp_all add: cell)
  have sub: "set features \<subseteq> set (columns (fold ensure_column features ?df))"
    by (simp add: columns_fold_ensure)
  have "getitem_columns (fold ensure_column features ?df) features =
      Inr \<lparr>columns = features,
           rows = map (\<lambda>r. map (\<lambda>c. (c, dict_get r c (PFloat NaN))) features)
                    (map g (map ?h ds))\<rparr>"
    by (simp only: getitem_columns_subset [OF sub] g rws)
  also have "map (\<lambda>r. map (\<lambda>c. (c, dict_get r c (PFloat NaN))) features) (map g (map ?h ds)) =
      map (\<lambda>d. map (\<lambda>c. (c, dict_get (g (?h d)) c (PFloat NaN))) features) ds"
    by (simp add: o_def)
  finally show ?thesis
    by (simp only: row)
qed

lemma validate_dicts:
  assumes "EXPECTED_FEATURES = Some features"
  shows "validate_and_build_df R (PList (map PDict ds)) =
     Inr \<lparr>columns = features,
          rows = map (\<lambda>d. map (\<lambda>c. (c, if c \<in> set (columns_of ds)
                                         then dict_get d c (PFloat NaN) else PNone)) features) ds\<rparr>"
proof -
  have "validate_and_build_df R (PList (map PDict ds)) =
      getitem_columns (fold ensure_column features (DataFrame_dicts ds)) features"
    by (simp only: validate_and_build_df_def records_of.simps DataFrame_of_dicts assms
        option.case sum.case)
  then show ?thesis
    by (simp only: build_features)
qed

lemma validate_dict:
  assumes "EXPECTED_FEATURES = Some features"
  shows "validate_and_build_df R (PDict d) =
     Inr \<lparr>columns = features,
          rows = [map (\<lambda>c. (c, if c \<in> set (columns_of [d])
                                then dict_get d c (PFloat NaN) else PNone)) features]\<rparr>"
proof -
  have "validate_and_build_df R (PDict d) = validate_and_build_df R (PList (map PDict [d]))"
    by (simp add: validate_and_build_df_def)
  also have "\<dots> = Inr \<lparr>columns = features,
          rows = map (\<lambda>d'. map (\<lambda>c. (c, if c \<in> set (columns_of [d])
                                then dict_get d' c (PFloat NaN) else PNone)) features) [d]\<rparr>"
    by (rule validate_dicts [OF assms])
  finally show ?thesis
    by simp
qed

lemma cell_by_map_of:
  "d \<in> set ds \<Longrightarrow>
   (if c \<in> set (columns_of ds) then dict_get d c (PFloat NaN) else PNone) =
   (case map_of d c of Some v \<Rightarrow> v
    | None \<Rightarrow> if \<exists>d'\<in>set ds. map_of d' c \<noteq> None then PFloat NaN else PNone)"
  by (auto simp: in_columns_of dict_get_def split: option.splits)

lemma features_15:
  "\<exists>features. EXPECTED_FEATURES = Some features \<and> length features = 15 \<and> distinct features"
  by (simp add: EXPECTED_FEATURES_def py_def)

text \<open>
  C6. \<open>validate_and_build_df\<close> accepts every array of objects and every single object
  and returns a frame whose columns are the 15 expected feature names in their fixed
  order. A cell holds the record's value for the feature; where the record has none it
  holds a missing marker, \<open>None\<close> when no record of the request has the feature and
  \<open>NaN\<close> when another record has it. The frame depends on each object only as a mapping
  from keys to values, so the order of the keys does not matter.
\<close>

theorem validate_and_build_df_columns:
  "\<exists>features. EXPECTED_FEATURES = Some features \<and> length features = 15 \<and> distinct features
     \<and> validate_and_build_df R (PList (map PDict ds)) =
         Inr \<lparr>columns = features,
              rows = map (\<lambda>d. map (\<lambda>c. (c, case map_of d c of
                                                Some v \<Rightarrow> v
                                              | None \<Rightarrow>
                                                  if \<exists>d'\<in>set ds. map_of d' c \<noteq> None
                                                  then PFloat NaN else PNone))
                                  features) ds\<rparr>
     \<and> validate_and_build_df R (PDict d) =
         Inr \<lparr>columns = features,
              rows = [map (\<lambda>c. (c, case map_of d c of Some v \<Rightarrow> v | None \<Rightarrow> PNone))
                        features]\<rparr>
     \<and> (map map_of ds = map map_of ds' \<longrightarrow>
          validate_and_build_df R (PList (map PDict ds)) =
          validate_and_build_df R (PList (map PDict ds')))"
proof -
  obtain features where f: "EXPECTED_FEATURES = Some features"
      and n: "length features = 15" and dist: "distinct features"
    using features_15 by blast
  let ?cell = "\<lambda>ds d c. case map_of d c of
                            Some v \<Rightarrow> v
                          | None \<Rightarrow> if \<exists>d'\<in>set ds. map_of d' c \<noteq> None
                                    then PFloat NaN else PNone"
  have many: "validate_and_build_df R (PList (map PDict ds)) =
      Inr \<lparr>columns = features, rows = map (\<lambda>d. map (\<lambda>c. (c, ?cell ds d c)) features) ds\<rparr>"
    for ds
  proof -
    have "map (\<lambda>d. map (\<lambda>c. (c, if c \<in> set (columns_of ds)
                                   then dict_get d c (PFloat NaN) else PNone)) features) ds =
          map (\<lambda>d. map (\<lambda>c. (c, ?cell ds d c)) features) ds"
      by (rule map_cong) (simp_all add: cell_by_map_of)
    then show ?thesis
      by (simp only: validate_dicts [OF f])
  qed
  have one: "validate_and_build_df R (PDict d) =
      Inr \<lparr>columns = features,
           rows = [map (\<lambda>c. (c, case map_of d c of Some v \<Rightarrow> v | None \<Rightarrow> PNone)) features]\<rparr>"
  proof -
    have "(if c \<in> set (columns_of [d]) then dict_get d c (PFloat NaN) else PNone) =
        (case map_of d c of Some v \<Rightarrow> v | None \<Rightarrow> PNone)" for c
      by (auto simp: in_columns_of dict_get_def split: option.splits)
    then show ?thesis
      by (simp add: validate_dict [OF f])
  qed
  have order: "validate_and_build_df R (PList (map PDict ds)) =
      validate_and_build_df R (PList (map PDict ds'))"
    if eq: "map map_of ds = map map_of ds'"
  proof -
    have rows_by_maps: "map (\<lambda>d. map (\<lambda>c. (c, ?cell xs d c)) features) xs =
        map (\<lambda>m. map (\<lambda>c. (c, case m c of
                                   Some v \<Rightarrow> v
                                 | None \<Rightarrow> if \<exists>m'\<in>set (map map_of xs). m' c \<noteq> None
                                           then PFloat NaN else PNone)) features)
          (map map_of xs)" for xs
      by (simp add: o_def)
    show ?thesis
      by (simp only: many rows_by_maps eq)
  qed
  from f n dist many [of ds] one order show ?thesis
    by blast
qed

theorem validate_and_build_df_columns_witness:
  "validate_and_build_df example_runtime
      (PList [PDict [(py ''Gender'', PStr (py ''Male'')), (py ''Age'', PInt 60)]]) =
   validate_and_build_df example_runtime
      (PList [PDict [(py ''Age'', PInt 60), (py ''Gender'', PStr (py ''Male''))]])
   \<and> validate_and_build_df example_runtime
      (PList [PDict [(py ''Age'', PInt 60), (py ''Gender'', PStr (py ''Male''))]]) =
     Inr \<lparr>columns = the EXPECTED_FEATURES,
          rows = [(py ''Age'', PInt 60) # (py ''Gender'', PStr (py ''Male''))
                  # map (\<lambda>c. (c, PNone)) (drop 2 (the EXPECTED_FEATURES))]\<rparr>"
proof -
  have frame: "validate_and_build_df example_runtime
      (PList [PDict [(py ''Age'', PInt 60), (py ''Gender'', PStr (py ''Male''))]]) =
     Inr \<lparr>columns = the EXPECTED_FEATURES,
          rows = [(py ''Age'', PInt 60) # (py ''Gender'', PStr (py ''Male''))
                  # map (\<lambda>c. (c, PNone)) (drop 2 (the EXPECTED_FEATURES))]\<rparr>"
    by code_simp
  have "map map_of [[(py ''Gender'', PStr (py ''Male'')), (py ''Age'', PInt 60)]] =
        map map_of [[(py ''Age'', PInt 60), (py ''Gender'', PStr (py ''Male''))]]"
    by (auto simp: py_def)
  with validate_and_build_df_columns
         [of example_runtime "[[(py ''Gender'', PStr (py ''Male'')), (py ''Age'', PInt 60)]]" "[]"
             "[[(py ''Age'', PInt 60), (py ''Gender'', PStr (py ''Male''))]]"]
  have "validate_and_build_df example_runtime
      (PList [PDict [(py ''Gender'', PStr (py ''Male'')), (py ''Age'', PInt 60)]]) =
   validate_and_build_df example_runtime
      (PList [PDict [(py ''Age'', PInt 60), (py ''Gender'', PStr (py ''Male''))]])"
    by auto
  with frame show ?thesis
    by (rule conjI [rotated])
qed

lemma validate_empty_object:
  "EXPECTED_FEATURES = Some features \<Longrightarrow>
   validate_and_build_df R (PDict []) =
     Inr \<lparr>columns = features, rows = [map (\<lambda>c. (c, PNone)) features]\<rparr>"
  by (simp add: validate_dict columns_of_def)

lemma predict_calls:
  "validate_and_build_df R payload = Inr df \<Longrightarrow>
   \<exists>resp calls. predict R M (Inr payload) = (resp, Predict df # calls)"
  by (simp add: predict_def split: sum.splits)

lemma predict_recommend_calls:
  "validate_and_build_df R payload = Inr df \<Longrightarrow>
   \<exists>resp calls. predict_recommend R M med (Inr payload) = (resp, Predict df # calls)"
  by (simp add: predict_recommend_def split: sum.splits)

text \<open>
  C10. \<open>/recommend\<close> answers every falsy body, among them \<open>{}\<close>, \<open>[]\<close>, \<open>null\<close>,
  \<open>0\<close>, \<open>false\<close> and the empty string, with the 400 response of
  \<open>ValueError("Empty request body")\<close> and calls nothing on the pipeline, while
  \<open>/predict\<close> and \<open>/predict_recommend\<close> coerce \<open>{}\<close> to one row of 15 \<open>None\<close> cells
  and call \<open>model.predict\<close> on it.
\<close>

theorem empty_bodies:
  "(\<not> truthy payload \<longrightarrow>
      recommend R M med (Inr payload) =
        (\<lparr>status_code = 400,
          body = PDict [(py ''status'', PStr (py ''error'')),
                        (py ''error'', PStr (py ''Empty request body'')),
                        (py ''trace'',
                         PStr (format_exc R (ValueError (py ''Empty request body''))))]\<rparr>, []))
   \<and> list_all (\<lambda>p. \<not> truthy p) [PDict [], PList [], PNone, PInt 0, PBool False, PStr []]
   \<and> (\<exists>features. EXPECTED_FEATURES = Some features
         \<and> validate_and_build_df R (PDict []) =
             Inr \<lparr>columns = features, rows = [map (\<lambda>c. (c, PNone)) features]\<rparr>
         \<and> (\<exists>resp calls. predict R M (Inr (PDict [])) =
               (resp, Predict \<lparr>columns = features, rows = [map (\<lambda>c. (c, PNone)) features]\<rparr>
                      # calls))
         \<and> (\<exists>resp calls. predict_recommend R M med (Inr (PDict [])) =
               (resp, Predict \<lparr>columns = features, rows = [map (\<lambda>c. (c, PNone)) features]\<rparr>
                      # calls)))"
proof -
  have falsy: "\<not> truthy payload \<longrightarrow>
      recommend R M med (Inr payload) =
        (\<lparr>status_code = 400,
          body = PDict [(py ''status'', PStr (py ''error'')),
                        (py ''error'', PStr (py ''Empty request body'')),
                        (py ''trace'',
                         PStr (format_exc R (ValueError (py ''Empty request body''))))]\<rparr>, [])"
    by (simp add: recommend_def error_response_def ValueError_def)
  have six: "list_all (\<lambda>p. \<not> truthy p) [PDict [], PList [], PNone, PInt 0, PBool False, PStr []]"
    by simp
  obtain features where f: "EXPECTED_FEATURES = Some features"
    using features_15 by blast
  have v: "validate_and_build_df R (PDict []) =
      Inr \<lparr>columns = features, rows = [map (\<lambda>c. (c, PNone)) features]\<rparr>"
    using f by (rule validate_empty_object)
  from falsy six f v predict_calls [OF v, of M] predict_recommend_calls [OF v, of M med]
  show ?thesis
    by blast
qed

theorem empty_bodies_witness:
  "\<not> truthy (PDict [])
   \<and> status_code (fst (recommend example_runtime example_model default_med_map (Inr (PDict []))))
       = 400
   \<and> snd (recommend example_runtime example_model default_med_map (Inr (PDict []))) = []"
proof -
  have t: "\<not> truthy (PDict [])"
    by simp
  from empty_bodies [of "PDict []" example_runtime example_model default_med_map] t
  show ?thesis
    by simp
qed

section \<open>Properties of the request handlers\<close>

lemma for_enumerate_entries:
  "for_enumerate f idx xs = Inr ys \<Longrightarrow> list_all2 (\<lambda>x y. \<exists>j. f j x = Inr y) xs ys"
proof (induction xs arbitrary: idx ys)
  case Nil
  then show ?case by simp
next
  case (Cons x xs)
  then show ?case
    by (auto split: sum.splits)
qed

lemma for_enumerate_total:
  "(\<And>j x. x \<in> set xs \<Longrightarrow> \<exists>y. f j x = Inr y) \<Longrightarrow> \<exists>ys. for_enumerate f idx xs = Inr ys"
proof (induction xs arbitrary: idx)
  case Nil
  then show ?case by simp
next
  case (Cons x xs)
  obtain y where y: "f idx x = Inr y"
    using Cons.prems [of x idx] by auto
  obtain ys where ys: "for_enumerate f (Suc idx) xs = Inr ys"
    using Cons.IH [of "Suc idx"] Cons.prems by auto
  show ?case
    by (simp add: y ys)
qed

lemma for_enumerate_no_probs:
  "for_enumerate (predict_entry M None) idx preds =
     Inr (map (\<lambda>p. PDict [(py ''Complication'', PStr p)]) preds)"
  by (induction preds arbitrary: idx) (simp_all add: predict_entry_def with_probabilities_def)

lemma resolver_returns:
  "py ''Complication'' \<in> set (columns med) \<Longrightarrow> \<exists>rec. recommend_from_complication R med c = Inr rec"
  by (simp add: recommend_from_complication_def Let_def split: list.splits)















lemma handler_answers:
  "(\<exists>e. fst (predict R M request) = error_response R e)
     \<or> (\<exists>d. fst (predict R M request) = ok_response d)"
  "(\<exists>e. fst (recommend R M med request) = error_response R e)
     \<or> (\<exists>d. fst (recommend R M med request) = ok_response d)"
  "(\<exists>e. fst (predict_recommend R M med request) = error_response R e)
     \<or> (\<exists>d. fst (predict_recommend R M med request) = ok_response d)"
  by (auto simp: predict_def recommend_def predict_recommend_def split: sum.splits option.splits)

lemma predict_without_proba:
  assumes "validate_and_build_df R payload = Inr df"
    and "model_predict M df = Inr preds"
    and "model_predict_proba M df = Inl e"
  shows "predict R M (Inr payload) =
           (ok_response [(py ''predictions'',
                          PList (map (\<lambda>p. PDict [(py ''Complication'', PStr p)]) preds))],
            [Predict df, PredictProba df])"
  using assms by (simp add: predict_def try_predict_proba_def for_enumerate_no_probs)

lemma predict_recommend_entry_no_probs:
  "predict_recommend_entry R M med None j p = Inr y \<Longrightarrow>
   \<exists>rec. recommend_from_complication R med (PStr p) = Inr rec
      \<and> y = PDict [(py ''Complication'', PStr p), (py ''Recommendation'', rec)]"
  by (auto simp: predict_recommend_entry_def with_probabilities_def split: sum.splits)

lemma predict_recommend_no_proba:
  assumes v: "validate_and_build_df R payload = Inr df"
    and p: "model_predict M df = Inr preds"
    and e: "model_predict_proba M df = Inl e"
    and col: "py ''Complication'' \<in> set (columns med)"
  shows "\<exists>out. predict_recommend R M med (Inr payload) =
           (ok_response [(py ''results'', PList out)], [Predict df, PredictProba df])
         \<and> list_all2
              (\<lambda>p entry. \<exists>rec. recommend_from_complication R med (PStr p) = Inr rec
                  \<and> entry = PDict [(py ''Complication'', PStr p), (py ''Recommendation'', rec)])
              preds out"
proof -
  have "\<exists>y. predict_recommend_entry R M med None j x = Inr y" for j x
    using resolver_returns [OF col, of R "PStr x"]
    by (auto simp: predict_recommend_entry_def with_probabilities_def)
  then obtain out where
    loop: "for_enumerate (predict_recommend_entry R M med None) 0 preds = Inr out"
    using for_enumerate_total [of preds "predict_recommend_entry R M med None" 0] by blast
  have "list_all2 (\<lambda>p y. \<exists>j. predict_recommend_entry R M med None j p = Inr y) preds out"
    using loop by (rule for_enumerate_entries)
  then have entries: "list_all2
      (\<lambda>p entry. \<exists>rec. recommend_from_complication R med (PStr p) = Inr rec
          \<and> entry = PDict [(py ''Complication'', PStr p), (py ''Recommendation'', rec)])
      preds out"
    by (rule list_all2_mono) (auto dest: predict_recommend_entry_no_probs)
  from v p e loop have "predict_recommend R M med (Inr payload) =
      (ok_response [(py ''results'', PList out)], [Predict df, PredictProba df])"
    by (simp add: predict_recommend_def try_predict_proba_def)
  with entries show ?thesis
    by blast
qed

lemma complication_key_truthy: "complication_key payload = Some c \<Longrightarrow> truthy payload"
  by (cases payload) (auto simp: complication_key_def dest: truthy_has_key)

lemma recommend_resolver_raises:
  "complication_key payload = Some c \<Longrightarrow> recommend_from_complication R med c = Inl e \<Longrightarrow>
   recommend R M med (Inr payload) = (error_response R e, [])"
  by (simp add: recommend_def complication_key_truthy)

text \<open>
  C8, as amended. A body that is neither an object nor an array is answered by \<open>/predict\<close>
  with the 400 response of the coercion's \<open>ValueError\<close>. In every handler an exception
  of \<open>request.get_json()\<close>, of the coercion, of \<open>model.predict\<close>, of the resolver or of
  the loop that builds the entries is answered with status code 400 and a body of status
  \<open>error\<close>, the message and the trace, and every request is answered with such a response
  or with a success. An exception of \<open>predict_proba\<close> is not reported: \<open>/predict\<close>
  answers with the success whose entries hold the label only, and \<open>/predict_recommend\<close>
  with the success whose entries hold the label and its recommendation only.
\<close>

theorem exceptions_answered:
  "(records_of payload = None \<longrightarrow>
      predict R M (Inr payload) =
        (error_response R
           (ValueError (py ''Payload must be a JSON object or array of objects.'')), []))
   \<and> error_response R e =
        \<lparr>status_code = 400,
         body = PDict [(py ''status'', PStr (py ''error'')),
                       (py ''error'', PStr (exn_msg e)),
                       (py ''trace'', PStr (format_exc R e))]\<rparr>
   \<and> predict R M (Inl e) = (error_response R e, [])
   \<and> recommend R M med (Inl e) = (error_response R e, [])
   \<and> predict_recommend R M med (Inl e) = (error_response R e, [])
   \<and> (validate_and_build_df R payload = Inl e \<longrightarrow>
        predict R M (Inr payload) = (error_response R e, [])
        \<and> predict_recommend R M med (Inr payload) = (error_response R e, [])
        \<and> (truthy payload \<and> complication_key payload = None \<longrightarrow>
             recommend R M med (Inr payload) = (error_response R e, [])))
   \<and> (validate_and_build_df R payload = Inr df \<and> model_predict M df = Inl e \<longrightarrow>
        predict R M (Inr payload) = (error_response R e, [Predict df])
        \<and> predict_recommend R M med (Inr payload) = (error_response R e, [Predict df])
        \<and> (truthy payload \<and> complication_key payload = None \<longrightarrow>
             recommend R M med (Inr payload) = (error_response R e, [Predict df])))
   \<and> (complication_key payload = Some c \<and> recommend_from_complication R med c = Inl e \<longrightarrow>
        recommend R M med (Inr payload) = (error_response R e, []))
   \<and> (validate_and_build_df R payload = Inr df \<and> model_predict M df = Inr preds \<longrightarrow>
        (for_enumerate (predict_entry M (try_predict_proba M df)) 0 preds = Inl e \<longrightarrow>
           predict R M (Inr payload) = (error_response R e, [Predict df, PredictProba df]))
        \<and> (for_enumerate (predict_recommend_entry R M med (try_predict_proba M df)) 0 preds
              = Inl e \<longrightarrow>
           predict_recommend R M med (Inr payload) =
             (error_response R e, [Predict df, PredictProba df]))
        \<and> (truthy payload \<and> complication_key payload = None
              \<and> for_enumerate (recommend_entry R med) 0 preds = Inl e \<longrightarrow>
           recommend R M med (Inr payload) = (error_response R e, [Predict df])))
   \<and> ((\<exists>e'. fst (predict R M request) = error_response R e')
        \<or> (\<exists>d. fst (predict R M request) = ok_response d))
   \<and> ((\<exists>e'. fst (recommend R M med request) = error_response R e')
        \<or> (\<exists>d. fst (recommend R M med request) = ok_response d))
   \<and> ((\<exists>e'. fst (predict_recommend R M med request) = error_response R e')
        \<or> (\<exists>d. fst (predict_recommend R M med request) = ok_response d))
   \<and> (validate_and_build_df R payload = Inr df \<and> model_predict M df = Inr preds
        \<and> model_predict_proba M df = Inl e \<longrightarrow>
        predict R M (Inr payload) =
          (ok_response [(py ''predictions'',
                         PList (map (\<lambda>p. PDict [(py ''Complication'', PStr p)]) preds))],
           [Predict df, PredictProba df])
        \<and> (py ''Complication'' \<in> set (columns med) \<longrightarrow>
             (\<exists>out. predict_recommend R M med (Inr payload) =
                  (ok_response [(py ''results'', PList out)], [Predict df, PredictProba df])
                \<and> list_all2
                     (\<lambda>p entry. \<exists>rec. recommend_from_complication R med (PStr p) = Inr rec
                         \<and> entry = PDict [(py ''Complication'', PStr p),
                                           (py ''Recommendation'', rec)])
                     preds out)))"
proof -
  have shape: "records_of payload = None \<longrightarrow>
      predict R M (Inr payload) =
        (error_response R
           (ValueError (py ''Payload must be a JSON object or array of objects.'')), [])"
    by (simp add: predict_def validate_and_build_df_def)
  have resp: "error_response R e =
        \<lparr>status_code = 400,
         body = PDict [(py ''status'', PStr (py ''error'')),
                       (py ''error'', PStr (exn_msg e)),
                       (py ''trace'', PStr (format_exc R e))]\<rparr>"
    by (simp add: error_response_def)
  have parse: "predict R M (Inl e) = (error_response R e, [])"
      "recommend R M med (Inl e) = (error_response R e, [])"
      "predict_recommend R M med (Inl e) = (error_response R e, [])"
    by (simp_all add: predict_def recommend_def predict_recommend_def)
  have coerce: "validate_and_build_df R payload = Inl e \<longrightarrow>
        predict R M (Inr payload) = (error_response R e, [])
        \<and> predict_recommend R M med (Inr payload) = (error_response R e, [])
        \<and> (truthy payload \<and> complication_key payload = None \<longrightarrow>
             recommend R M med (Inr payload) = (error_response R e, []))"
    by (simp add: predict_def recommend_def predict_recommend_def)
  have infer: "validate_and_build_df R payload = Inr df \<and> model_predict M df = Inl e \<longrightarrow>
        predict R M (Inr payload) = (error_response R e, [Predict df])
        \<and> predict_recommend R M med (Inr payload) = (error_response R e, [Predict df])
        \<and> (truthy payload \<and> complication_key payload = None \<longrightarrow>
             recommend R M med (Inr payload) = (error_response R e, [Predict df]))"
    by (simp add: predict_def recommend_def predict_recommend_def)
  have resolve: "complication_key payload = Some c \<and> recommend_from_complication R med c = Inl e
      \<longrightarrow> recommend R M med (Inr payload) = (error_response R e, [])"
    by (simp add: recommend_resolver_raises)
  have assemble: "validate_and_build_df R payload = Inr df \<and> model_predict M df = Inr preds \<longrightarrow>
        (for_enumerate (predict_entry M (try_predict_proba M df)) 0 preds = Inl e \<longrightarrow>
           predict R M (Inr payload) = (error_response R e, [Predict df, PredictProba df]))
        \<and> (for_enumerate (predict_recommend_entry R M med (try_predict_proba M df)) 0 preds
              = Inl e \<longrightarrow>
           predict_recommend R M med (Inr payload) =
             (error_response R e, [Predict df, PredictProba df]))
        \<and> (truthy payload \<and> complication_key payload = None
              \<and> for_enumerate (recommend_entry R med) 0 preds = Inl e \<longrightarrow>
           recommend R M med (Inr payload) = (error_response R e, [Predict df]))"
    by (simp add: predict_def recommend_def predict_recommend_def)
  have proba: "validate_and_build_df R payload = Inr df \<and> model_predict M df = Inr preds
        \<and> model_predict_proba M df = Inl e \<longrightarrow>
        predict R M (Inr payload) =
          (ok_response [(py ''predictions'',
                         PList (map (\<lambda>p. PDict [(py ''Complication'', PStr p)]) preds))],
           [Predict df, PredictProba df])
        \<and> (py ''Complication'' \<in> set (columns med) \<longrightarrow>
             (\<exists>out. predict_recommend R M med (Inr payload) =
                  (ok_response [(py ''results'', PList out)], [Predict df, PredictProba df])
                \<and> list_all2
                     (\<lambda>p entry. \<exists>rec. recommend_from_complication R med (PStr p) = Inr rec
                         \<and> entry = PDict [(py ''Complication'', PStr p),
                                           (py ''Recommendation'', rec)])
                     preds out))"
    by (simp add: predict_without_proba predict_recommend_no_proba)
  from shape resp parse coerce infer resolve assemble handler_answers proba
  show ?thesis
    by (intro conjI)
qed

theorem exceptions_answered_witness:
  "records_of (PInt 7) = None
   \<and> predict example_runtime example_model (Inr (PInt 7)) =
       (\<lparr>status_code = 400,
         body = PDict [(py ''status'', PStr (py ''error'')),
                       (py ''error'',
                        PStr (py ''Payload must be a JSON object or array of objects.'')),
                       (py ''trace'',
                        PStr (format_exc example_runtime
                          (ValueError
                            (py ''Payload must be a JSON object or array of objects.''))))]\<rparr>,
        [])
   \<and> fst (predict_recommend example_runtime no_proba_model default_med_map (Inr (PDict []))) =
       ok_response [(py ''results'',
          PList [PDict [(py ''Complication'', PStr (py ''Infection'')),
                        (py ''Recommendation'',
                         recommendation (PStr (py ''Antibiotics'')) (PStr (py ''500 mg/day''))
                           (PStr (py ''7 days'')) (py ''medication_map.csv''))]])]"
proof -
  have r: "records_of (PInt 7) = None"
    by simp
  note shape = exceptions_answered [of "PInt 7" example_runtime example_model, THEN conjunct1,
      THEN mp, OF r]
  from shape
  have first: "predict example_runtime example_model (Inr (PInt 7)) =
       (\<lparr>status_code = 400,
         body = PDict [(py ''status'', PStr (py ''error'')),
                       (py ''error'',
                        PStr (py ''Payload must be a JSON object or array of objects.'')),
                       (py ''trace'',
                        PStr (format_exc example_runtime
                          (ValueError
                            (py ''Payload must be a JSON object or array of objects.''))))]\<rparr>,
        [])"
    by (simp add: ValueError_def error_response_def)
  obtain features where f: "EXPECTED_FEATURES = Some features"
    using features_15 by blast
  let ?df = "\<lparr>columns = features, rows = [map (\<lambda>c. (c, PNone)) features]\<rparr>"
  let ?e = "Exn (py ''AttributeError'') (py ''predict_proba is not available'')"
  have v: "validate_and_build_df example_runtime (PDict []) = Inr ?df"
    using f by (rule validate_empty_object)
  have p: "model_predict no_proba_model ?df = Inr [py ''Infection'']"
    by (simp add: no_proba_model_def)
  have pp: "model_predict_proba no_proba_model ?df = Inl ?e"
    by (simp add: no_proba_model_def)
  have col: "py ''Complication'' \<in> set (columns default_med_map)"
    by code_simp
  have rec: "recommend_from_complication example_runtime default_med_map
               (PStr (py ''Infection'')) =
             Inr (recommendation (PStr (py ''Antibiotics'')) (PStr (py ''500 mg/day''))
                    (PStr (py ''7 days'')) (py ''medication_map.csv''))"
    by code_simp
  note last = exceptions_answered [of "PDict []" example_runtime no_proba_model ?e
      default_med_map ?df _ "[py ''Infection'']",
      THEN conjunct2, THEN conjunct2, THEN conjunct2, THEN conjunct2, THEN conjunct2,
      THEN conjunct2, THEN conjunct2, THEN conjunct2, THEN conjunct2, THEN conjunct2,
      THEN conjunct2, THEN conjunct2]
  from last [THEN mp, OF conjI [OF v conjI [OF p pp]], THEN conjunct2, THEN mp, OF col]
  obtain out where
    o: "predict_recommend example_runtime no_proba_model default_med_map (Inr (PDict [])) =
          (ok_response [(py ''results'', PList out)], [Predict ?df, PredictProba ?df])"
    and l: "list_all2
         (\<lambda>p entry. \<exists>rec. recommend_from_complication example_runtime default_med_map (PStr p)
                        = Inr rec
             \<and> entry = PDict [(py ''Complication'', PStr p), (py ''Recommendation'', rec)])
         [py ''Infection''] out"
    by blast
  from l rec have "out = [PDict [(py ''Complication'', PStr (py ''Infection'')),
                        (py ''Recommendation'',
                         recommendation (PStr (py ''Antibiotics'')) (PStr (py ''500 mg/day''))
                           (PStr (py ''7 days'')) (py ''medication_map.csv''))]]"
    by (auto simp: list_all2_Cons1)
  with o have second:
    "fst (predict_recommend example_runtime no_proba_model default_med_map (Inr (PDict []))) =
       ok_response [(py ''results'',
          PList [PDict [(py ''Complication'', PStr (py ''Infection'')),
                        (py ''Recommendation'',
                         recommendation (PStr (py ''Antibiotics'')) (PStr (py ''500 mg/day''))
                           (PStr (py ''7 days'')) (py ''medication_map.csv''))]])]"
    by simp
  from r first second show ?thesis
    by (intro conjI)
qed

text \<open>
  C8 as stated, for every exception raised during inference, fails for \<open>predict_proba\<close>:
  on a pipeline whose \<open>predict_proba\<close> raises, \<open>/predict\<close> answers the body \<open>{}\<close> with
  status code 200.
\<close>

theorem predict_proba_exception_counterexample:
  "(case validate_and_build_df example_runtime (PDict []) of
      Inl e \<Rightarrow> False
    | Inr df \<Rightarrow>
        isl (model_predict_proba no_proba_model df)
        \<and> predict example_runtime no_proba_model (Inr (PDict [])) =
            (\<lparr>status_code = 200,
              body = PDict [(py ''status'', PStr (py ''ok'')),
                            (py ''predictions'',
                             PList [PDict [(py ''Complication'', PStr (py ''Infection''))]])]\<rparr>,
             [Predict df, PredictProba df]))"
  by code_simp

end
